theory Spec2Isabelle
  imports Main
begin

section \<open>Data model of the terminal front end\<close>

text \<open>
  The component \<open>App\<close> keeps its state in React hooks. A JavaScript string is modelled
  as a \<open>string\<close> whose characters are code units below 256; a number that is only ever
  a non-negative integer (a clock reading, a length, an HTTP status) is a \<open>nat\<close>.
\<close>

datatype entry_type = Command | Output | Error

record TerminalEntry =
  entry_type :: entry_type
  content :: string

record TerminalSession =
  session_id :: string
  name :: string
  history :: "TerminalEntry list"

text \<open>
  The body of a 2xx reply of \<open>/api/execute\<close>, after \<open>response.json()\<close>. A field that is
  absent is \<open>None\<close>.
\<close>

record ExecResult =
  error :: "string option"
  stdout :: "string option"
  stderr :: "string option"
  exitCode :: "int option"

text \<open>
  How the request of one \<open>executeCommand\<close> call ends when nobody aborts it: a 2xx reply
  with a parsed body, a reply whose \<open>ok\<close> flag is false (status and status text), or a
  rejection of \<open>fetch\<close> or of \<open>response.json()\<close> carrying a message.
\<close>

datatype reply = Reply ExecResult | Status nat string | Rejected string

text \<open>
  One suspended call of \<open>executeCommand\<close>: the \<open>activeSessionId\<close> and the \<open>command\<close> of
  its closure, and the address of the \<open>AbortController\<close> whose signal went into \<open>fetch\<close>.
\<close>

record ExecCall =
  call_session :: string
  call_command :: string
  call_signal :: nat

text \<open>
  The hooks of \<open>App\<close>. \<open>controllers\<close> is the store of the \<open>AbortController\<close> objects made
  so far, each reduced to the \<open>aborted\<close> flag of its signal and addressed by its position;
  \<open>abortControllerRef\<close> holds such an address or \<open>null\<close>. \<open>requests\<close> lists the calls
  whose \<open>fetch\<close> has been sent to the execution service, oldest first.
\<close>

record AppState =
  sessions :: "TerminalSession list"
  activeSessionId :: string
  currentCommand :: string
  isLoading :: bool
  commandHistory :: "string list"
  historyIndex :: int
  abortControllerRef :: "nat option"
  controllers :: "bool list"
  requests :: "ExecCall list"

definition initialState :: AppState where
  "initialState =
     \<lparr>sessions = [], activeSessionId = [], currentCommand = [], isLoading = False,
      commandHistory = [], historyIndex = - 1, abortControllerRef = None,
      controllers = [], requests = []\<rparr>"

section \<open>Strings\<close>

text \<open>
  \<open>String.prototype.trim\<close> removes white space and line terminators from both ends.
  Below 256 these are TAB, LF, VT, FF, CR, SP and NBSP.
\<close>

definition is_ws :: "char \<Rightarrow> bool" where
  "is_ws c = (of_char c \<in> {9, 10, 11, 12, 13, 32, 160 :: nat})"

definition trim :: "string \<Rightarrow> string" where
  "trim s = rev (dropWhile is_ws (rev (dropWhile is_ws s)))"

text \<open>\<open>Number.prototype.toString\<close> on a non-negative integer: its decimal digits.\<close>

definition digit_char :: "nat \<Rightarrow> char" where
  "digit_char d = ''0123456789'' ! d"

fun string_of_nat :: "nat \<Rightarrow> string" where
  "string_of_nat n =
     (if n < 10 then [digit_char n]
      else string_of_nat (n div 10) @ [digit_char (n mod 10)])"

declare string_of_nat.simps [simp del]

text \<open>A string is truthy when it is present and not empty.\<close>

definition truthy :: "string option \<Rightarrow> bool" where
  "truthy v = (case v of None \<Rightarrow> False | Some t \<Rightarrow> t \<noteq> [])"

section \<open>Restoring the sessions on mount\<close>

text \<open>
  The value under the key \<open>terminal-sessions\<close> is either text that \<open>JSON.parse\<close> rejects or
  the text \<open>JSON.stringify\<close> wrote for a list of sessions; \<open>JSON.parse\<close> throws a
  \<open>SyntaxError\<close> on the first and returns the list on the second. Values of any other
  shape are outside the model. Only the empty text is falsy.
\<close>

datatype stored = Unparsable string | Serialized "TerminalSession list"

datatype js_error = SyntaxError

definition JSON_parse :: "stored \<Rightarrow> js_error + TerminalSession list" where
  "JSON_parse v = (case v of Unparsable t \<Rightarrow> Inl SyntaxError | Serialized ss \<Rightarrow> Inr ss)"

definition nonempty_text :: "stored \<Rightarrow> bool" where
  "nonempty_text v = (case v of Unparsable t \<Rightarrow> t \<noteq> [] | Serialized ss \<Rightarrow> True)"

text \<open>
  The effect that loads the sessions, run on \<open>initialState\<close>. \<open>savedSessions\<close> and
  \<open>savedActiveTab\<close> are what \<open>localStorage.getItem\<close> returned (\<open>None\<close> for \<open>null\<close>). An
  exception thrown by \<open>JSON.parse\<close> is not caught, so it leaves the effect.
\<close>

definition loadSessions :: "stored option \<Rightarrow> string option \<Rightarrow> js_error + AppState" where
  "loadSessions savedSessions savedActiveTab =
     (case savedSessions of
        None \<Rightarrow>
          Inr (initialState\<lparr>sessions := [\<lparr>session_id = ''1'', name = ''Terminal 1'', history = []\<rparr>],
                            activeSessionId := ''1''\<rparr>)
      | Some v \<Rightarrow>
          if nonempty_text v then
            (case JSON_parse v of
               Inl e \<Rightarrow> Inl e
             | Inr parsedSessions \<Rightarrow>
                 let s = initialState\<lparr>sessions := parsedSessions\<rparr> in
                 if truthy savedActiveTab \<and> the savedActiveTab \<in> set (map session_id parsedSessions)
                 then Inr (s\<lparr>activeSessionId := the savedActiveTab\<rparr>)
                 else (case parsedSessions of
                         [] \<Rightarrow> Inr s
                       | first # rest \<Rightarrow> Inr (s\<lparr>activeSessionId := session_id first\<rparr>)))
          else
            Inr (initialState\<lparr>sessions := [\<lparr>session_id = ''1'', name = ''Terminal 1'', history = []\<rparr>],
                              activeSessionId := ''1''\<rparr>))"

section \<open>Operations on the sessions\<close>

definition updateSessionHistory :: "string \<Rightarrow> TerminalEntry \<Rightarrow> AppState \<Rightarrow> AppState" where
  "updateSessionHistory sessionId newEntry s =
     s\<lparr>sessions :=
         map (\<lambda>session. if session_id session = sessionId
                         then session\<lparr>history := history session @ [newEntry]\<rparr>
                         else session)
             (sessions s)\<rparr>"

definition clearTerminal :: "AppState \<Rightarrow> AppState" where
  "clearTerminal s =
     s\<lparr>sessions :=
         map (\<lambda>session. if session_id session = activeSessionId s
                         then session\<lparr>history := []\<rparr>
                         else session)
             (sessions s)\<rparr>"

text \<open>The click on a tab.\<close>

definition setActiveSessionId :: "string \<Rightarrow> AppState \<Rightarrow> AppState" where
  "setActiveSessionId sessionId s = s\<lparr>activeSessionId := sessionId\<rparr>"

text \<open>\<open>abort()\<close> sets the flag of the controller the ref points to.\<close>

definition cancelCommand :: "AppState \<Rightarrow> AppState" where
  "cancelCommand s =
     (let s1 = (case abortControllerRef s of
                  None \<Rightarrow> s
                | Some c \<Rightarrow> s\<lparr>controllers := (controllers s)[c := True]\<rparr>);
          s2 = updateSessionHistory (activeSessionId s) \<lparr>entry_type = Error, content = ''^C''\<rparr> s1
      in s2\<lparr>isLoading := False, currentCommand := []\<rparr>)"

text \<open>The updater given to \<open>setCommandHistory\<close>.\<close>

definition newHistory :: "string \<Rightarrow> string list \<Rightarrow> string list" where
  "newHistory command prev = take 50 (command # filter (\<lambda>cmd. cmd \<noteq> command) prev)"

text \<open>
  \<open>executeCommand\<close> up to its first \<open>await\<close>: the guards, the local \<open>clear\<close>, and otherwise
  the command entry, a new controller in the ref and the request sent with its signal.
\<close>

definition executeCommand_start :: "string \<Rightarrow> AppState \<Rightarrow> AppState" where
  "executeCommand_start command s =
     (if trim command = [] \<or> activeSessionId s = [] then s
      else if trim command = ''clear'' then (clearTerminal s)\<lparr>currentCommand := []\<rparr>
      else
        let s1 = s\<lparr>commandHistory := newHistory command (commandHistory s), historyIndex := - 1\<rparr>;
            s2 = updateSessionHistory (activeSessionId s)
                   \<lparr>entry_type = Command, content = ''$ '' @ command\<rparr> s1;
            s3 = s2\<lparr>currentCommand := [], isLoading := True\<rparr>;
            c = length (controllers s3);
            s4 = s3\<lparr>controllers := controllers s3 @ [False], abortControllerRef := Some c\<rparr>
        in s4\<lparr>requests := requests s4 @
                 [\<lparr>call_session = activeSessionId s, call_command = command, call_signal = c\<rparr>]\<rparr>)"

text \<open>The entries the \<open>try\<close> block appends for a parsed 2xx body.\<close>

definition resultEntries :: "ExecResult \<Rightarrow> TerminalEntry list" where
  "resultEntries r =
     (if truthy (error r) then [\<lparr>entry_type = Error, content = the (error r)\<rparr>]
      else if truthy (stdout r) \<or> truthy (stderr r) then
        (if truthy (stdout r) then [\<lparr>entry_type = Output, content = the (stdout r)\<rparr>] else []) @
        (if truthy (stderr r) then [\<lparr>entry_type = Error, content = the (stderr r)\<rparr>] else [])
      else [])"

text \<open>
  The entries appended when the request is not aborted: those of the \<open>try\<close> block, or the
  one entry of the \<open>catch\<close> block for a reply that is not \<open>ok\<close> and for a rejection.
\<close>

definition outcomeEntries :: "reply \<Rightarrow> TerminalEntry list" where
  "outcomeEntries rp =
     (case rp of
        Reply r \<Rightarrow> resultEntries r
      | Status code text \<Rightarrow>
          [\<lparr>entry_type = Error,
            content = ''Failed to execute command: '' @ ''HTTP '' @ string_of_nat code @ '': '' @ text\<rparr>]
      | Rejected message \<Rightarrow>
          [\<lparr>entry_type = Error, content = ''Failed to execute command: '' @ message\<rparr>])"

text \<open>
  \<open>executeCommand\<close> from its \<open>await\<close> to its end, for the suspended call \<open>p\<close>. When the
  signal of \<open>p\<close> has been aborted the request rejects with an \<open>AbortError\<close> whatever the
  service did, and the \<open>catch\<close> block returns at once. Otherwise the entries go to the
  session of the closure, one \<open>updateSessionHistory\<close> each, and the last two statements run.
\<close>

definition executeCommand_resume :: "ExecCall \<Rightarrow> reply \<Rightarrow> AppState \<Rightarrow> AppState" where
  "executeCommand_resume p rp s =
     (if call_signal p < length (controllers s) \<and> controllers s ! call_signal p then s
      else
        let s1 = fold (updateSessionHistory (call_session p)) (outcomeEntries rp) s
        in s1\<lparr>isLoading := False, abortControllerRef := None\<rparr>)"

section \<open>Tabs\<close>

text \<open>\<open>now\<close> is the reading of \<open>Date.now()\<close>.\<close>

definition createNewTab :: "nat \<Rightarrow> AppState \<Rightarrow> AppState" where
  "createNewTab now s =
     (let newId = string_of_nat now;
          newSession = \<lparr>session_id = newId,
                        name = ''Terminal '' @ string_of_nat (length (sessions s) + 1),
                        history = []\<rparr>
      in s\<lparr>sessions := sessions s @ [newSession], activeSessionId := newId\<rparr>)"


section \<open>Notions used in the statements\<close>

text \<open>The sessions \<open>ss\<close> after the entries \<open>es\<close> went, in order, to the sessions with the given id.\<close>

definition appendEntries ::
  "string \<Rightarrow> TerminalEntry list \<Rightarrow> TerminalSession list \<Rightarrow> TerminalSession list" where
  "appendEntries sessionId es ss =
     map (\<lambda>x. if session_id x = sessionId then x\<lparr>history := history x @ es\<rparr> else x) ss"

text \<open>The state after the first run, with nothing in storage.\<close>

definition bootState :: AppState where
  "bootState =
     initialState\<lparr>sessions := [\<lparr>session_id = ''1'', name = ''Terminal 1'', history = []\<rparr>],
                  activeSessionId := ''1''\<rparr>"

text \<open>
  \<open>commandHistory\<close> starts empty and \<open>setCommandHistory\<close> has the one call site, so its
  states are the lists reached by submitting commands \<open>cmds\<close>, oldest first.
\<close>

definition commandHistoryAfter :: "string list \<Rightarrow> string list" where
  "commandHistoryAfter cmds = fold newHistory cmds []"

text \<open>Reading a decimal numeral back.\<close>

definition nat_of_string :: "string \<Rightarrow> nat" where
  "nat_of_string t = foldl (\<lambda>a c. 10 * a + (of_char c - 48)) 0 t"

text \<open>
  Two tabs as restored from storage, the first one active, and a reply of the service to
  \<open>ls\<close> in a directory with one file.
\<close>

definition twoTabs :: AppState where
  "twoTabs =
     initialState\<lparr>sessions := [\<lparr>session_id = ''1'', name = ''Terminal 1'', history = []\<rparr>,
                               \<lparr>session_id = ''2'', name = ''Terminal 2'', history = []\<rparr>],
                  activeSessionId := ''1''\<rparr>"

definition sampleResult :: ExecResult where
  "sampleResult = \<lparr>error = None, stdout = Some ''a.txt'', stderr = None, exitCode = Some 0\<rparr>"



text \<open>The signal of the controller at address \<open>c\<close> has been aborted.\<close>

definition aborted :: "nat \<Rightarrow> AppState \<Rightarrow> bool" where
  "aborted c s = (c < length (controllers s) \<and> controllers s ! c)"

section \<open>Auxiliary facts\<close>

subsection \<open>Lists\<close>

lemma filter_neq_absent: "c \<notin> set ys \<Longrightarrow> filter (\<lambda>x. x \<noteq> c) ys = ys"
  by (induction ys) auto

lemma length_filter_neq_present:
  "distinct ys \<Longrightarrow> c \<in> set ys \<Longrightarrow> Suc (length (filter (\<lambda>x. x \<noteq> c) ys)) = length ys"
  by (induction ys) (auto simp: filter_neq_absent)

lemma take_filter_take:
  "distinct xs \<Longrightarrow>
   take n (filter (\<lambda>x. x \<noteq> c) (take (Suc n) xs)) = take n (filter (\<lambda>x. x \<noteq> c) xs)"
proof (induction xs arbitrary: n)
  case Nil
  then show ?case by simp
next
  case (Cons x xs)
  show ?case
  proof (cases n)
    case 0
    then show ?thesis by simp
  next
    case (Suc m)
    show ?thesis
    proof (cases "x = c")
      case True
      with Cons.prems have absent: "c \<notin> set xs" by simp
      then have a: "filter (\<lambda>x. x \<noteq> c) xs = xs" by (rule filter_neq_absent)
      from absent have "c \<notin> set (take n xs)" by (auto dest: in_set_takeD)
      then have b: "filter (\<lambda>x. x \<noteq> c) (take n xs) = take n xs" by (rule filter_neq_absent)
      show ?thesis using True Suc a b by simp
    next
      case False
      with Cons Suc show ?thesis by simp
    qed
  qed
qed

subsection \<open>The command history in closed form\<close>

lemma commandHistoryAfter_snoc:
  "commandHistoryAfter (cmds @ [c]) = newHistory c (commandHistoryAfter cmds)"
  by (simp add: commandHistoryAfter_def)

lemma remdups_snoc: "remdups (cmds @ [c]) = filter (\<lambda>x. x \<noteq> c) (remdups cmds) @ [c]"
  by (induction cmds) auto

lemma rev_remdups_snoc:
  "rev (remdups (cmds @ [c])) = c # filter (\<lambda>x. x \<noteq> c) (rev (remdups cmds))"
  by (simp add: remdups_snoc rev_filter)

lemma commandHistoryAfter_eq: "commandHistoryAfter cmds = take 50 (rev (remdups cmds))"
proof (induction cmds rule: rev_induct)
  case Nil
  then show ?case by (simp add: commandHistoryAfter_def)
next
  case (snoc c cmds)
  have d: "distinct (rev (remdups cmds))" by simp
  have e: "take 49 (filter (\<lambda>x. x \<noteq> c) (take (Suc 49) (rev (remdups cmds))))
           = take 49 (filter (\<lambda>x. x \<noteq> c) (rev (remdups cmds)))"
    using d by (rule take_filter_take)
  have "commandHistoryAfter (cmds @ [c])
        = take 50 (c # filter (\<lambda>x. x \<noteq> c) (take 50 (rev (remdups cmds))))"
    by (simp only: commandHistoryAfter_snoc snoc.IH newHistory_def)
  also have "\<dots> = c # take 49 (filter (\<lambda>x. x \<noteq> c) (take (Suc 49) (rev (remdups cmds))))"
    by simp
  also have "\<dots> = c # take 49 (filter (\<lambda>x. x \<noteq> c) (rev (remdups cmds)))"
    by (simp only: e)
  also have "\<dots> = take 50 (rev (remdups (cmds @ [c])))"
    by (simp only: rev_remdups_snoc) simp
  finally show ?case .
qed

lemma commandHistoryAfter_distinct: "distinct (commandHistoryAfter cmds)"
  by (simp add: commandHistoryAfter_eq)

lemma commandHistoryAfter_length: "length (commandHistoryAfter cmds) \<le> 50"
  by (simp add: commandHistoryAfter_eq)

subsection \<open>Decimal numerals\<close>

lemma of_char_digit: "d < 10 \<Longrightarrow> of_char (digit_char d) = 48 + d"
proof -
  assume "d < 10"
  then have "d \<in> {0, 1, 2, 3, 4, 5, 6, 7, 8, 9}" by auto
  then show ?thesis by (auto simp: digit_char_def)
qed

lemma nat_of_string_of_nat: "nat_of_string (string_of_nat n) = n"
proof (induction n rule: string_of_nat.induct)
  case (1 n)
  show ?case
  proof (cases "n < 10")
    case True
    then show ?thesis
      by (subst string_of_nat.simps) (simp add: nat_of_string_def of_char_digit)
  next
    case False
    with 1 have "nat_of_string (string_of_nat (n div 10)) = n div 10" by simp
    with False show ?thesis
      by (subst string_of_nat.simps) (simp add: nat_of_string_def of_char_digit)
  qed
qed

lemma string_of_nat_inj: "string_of_nat m = string_of_nat n \<Longrightarrow> m = n"
  by (metis nat_of_string_of_nat)

subsection \<open>The operations as single updates\<close>

lemma appendEntries_Nil: "appendEntries i [] ss = ss"
  by (induction ss) (simp_all add: appendEntries_def)

lemma appendEntries_twice:
  "appendEntries i es' (appendEntries i es ss) = appendEntries i (es @ es') ss"
  by (induction ss) (simp_all add: appendEntries_def)

lemma appendEntries_other:
  "j \<noteq> i \<Longrightarrow> filter (\<lambda>x. session_id x = j) (appendEntries i es ss) = filter (\<lambda>x. session_id x = j) ss"
  by (induction ss) (simp_all add: appendEntries_def)

lemma updateSessionHistory_eq:
  "updateSessionHistory i e s = s\<lparr>sessions := appendEntries i [e] (sessions s)\<rparr>"
  by (simp add: updateSessionHistory_def appendEntries_def)

lemma fold_updateSessionHistory:
  "fold (updateSessionHistory i) es s = s\<lparr>sessions := appendEntries i es (sessions s)\<rparr>"
proof (induction es arbitrary: s)
  case Nil
  show ?case by (simp add: appendEntries_Nil)
next
  case (Cons e es)
  have "fold (updateSessionHistory i) (e # es) s
        = fold (updateSessionHistory i) es (updateSessionHistory i e s)"
    by simp
  also have "\<dots> = (updateSessionHistory i e s)
        \<lparr>sessions := appendEntries i es (sessions (updateSessionHistory i e s))\<rparr>"
    by (rule Cons.IH)
  also have "\<dots> = s\<lparr>sessions := appendEntries i (e # es) (sessions s)\<rparr>"
    by (simp add: updateSessionHistory_eq appendEntries_twice)
  finally show ?case .
qed

lemma executeCommand_start_run:
  assumes "trim command \<noteq> []" and "trim command \<noteq> ''clear''" and "activeSessionId s \<noteq> []"
  shows "executeCommand_start command s =
     s\<lparr>commandHistory := newHistory command (commandHistory s),
       historyIndex := - 1,
       sessions := appendEntries (activeSessionId s)
                     [\<lparr>entry_type = Command, content = ''$ '' @ command\<rparr>] (sessions s),
       currentCommand := [],
       isLoading := True,
       controllers := controllers s @ [False],
       abortControllerRef := Some (length (controllers s)),
       requests := requests s @
         [\<lparr>call_session = activeSessionId s, call_command = command,
           call_signal = length (controllers s)\<rparr>]\<rparr>"
  using assms by (simp add: executeCommand_start_def Let_def updateSessionHistory_eq)

lemma executeCommand_resume_settled:
  assumes "\<not> (call_signal p < length (controllers s) \<and> controllers s ! call_signal p)"
  shows "executeCommand_resume p rp s =
     s\<lparr>sessions := appendEntries (call_session p) (outcomeEntries rp) (sessions s),
       isLoading := False, abortControllerRef := None\<rparr>"
proof -
  from assms
  have "(call_signal p < length (controllers s) \<and> controllers s ! call_signal p) = False"
    by simp
  then show ?thesis
    by (simp only: executeCommand_resume_def Let_def fold_updateSessionHistory if_False)
qed

lemma executeCommand_resume_aborted:
  assumes "call_signal p < length (controllers s)" and "controllers s ! call_signal p"
  shows "executeCommand_resume p rp s = s"
  using assms by (simp add: executeCommand_resume_def)

lemma cancelCommand_eq:
  "abortControllerRef s = Some c \<Longrightarrow>
   cancelCommand s =
     s\<lparr>controllers := (controllers s)[c := True],
       sessions := appendEntries (activeSessionId s)
                     [\<lparr>entry_type = Error, content = ''^C''\<rparr>] (sessions s),
       isLoading := False, currentCommand := []\<rparr>"
  by (simp add: cancelCommand_def Let_def updateSessionHistory_eq)

lemma issued_call:
  assumes "trim command \<noteq> []" and "trim command \<noteq> ''clear''" and "activeSessionId s \<noteq> []"
  shows "last (requests (executeCommand_start command s)) =
     \<lparr>call_session = activeSessionId s, call_command = command,
      call_signal = length (controllers s)\<rparr>"
  by (simp add: executeCommand_start_run [OF assms])

lemma outcomeEntries_length: "length (outcomeEntries rp) \<le> 2"
  by (cases rp) (simp_all add: outcomeEntries_def resultEntries_def)

lemma outcomeEntries_no_command:
  "filter (\<lambda>e. entry_type e = Command) (outcomeEntries rp) = []"
  by (cases rp) (simp_all add: outcomeEntries_def resultEntries_def)


lemma outcomeEntries_error:
  "error r = Some e \<Longrightarrow> e \<noteq> [] \<Longrightarrow>
   outcomeEntries (Reply r) = [\<lparr>entry_type = Error, content = e\<rparr>]"
  by (simp add: outcomeEntries_def resultEntries_def truthy_def)

lemma outcomeEntries_streams:
  "error r \<in> {None, Some []} \<Longrightarrow>
   outcomeEntries (Reply r) =
     (case stdout r of None \<Rightarrow> []
      | Some out \<Rightarrow> if out = [] then [] else [\<lparr>entry_type = Output, content = out\<rparr>]) @
     (case stderr r of None \<Rightarrow> []
      | Some err \<Rightarrow> if err = [] then [] else [\<lparr>entry_type = Error, content = err\<rparr>])"
  by (cases "stdout r"; cases "stderr r")
     (auto simp: outcomeEntries_def resultEntries_def truthy_def)

lemma outcomeEntries_status:
  "outcomeEntries (Status code text) =
     [\<lparr>entry_type = Error,
       content = ''Failed to execute command: HTTP '' @ string_of_nat code @ '': '' @ text\<rparr>]"
  by (simp add: outcomeEntries_def)

lemma outcomeEntries_rejected:
  "outcomeEntries (Rejected message) =
     [\<lparr>entry_type = Error, content = ''Failed to execute command: '' @ message\<rparr>]"
  by (simp add: outcomeEntries_def)

subsection \<open>An aborted signal stays aborted\<close>

lemma aborted_updateSessionHistory: "aborted c (updateSessionHistory i e s) = aborted c s"
  by (simp add: aborted_def updateSessionHistory_def)








text \<open>The definitions unfolded when a run is evaluated on a concrete state.\<close>

lemmas run_defs =
  executeCommand_start_def executeCommand_resume_def cancelCommand_def setActiveSessionId_def
  updateSessionHistory_def clearTerminal_def newHistory_def outcomeEntries_def resultEntries_def
  truthy_def trim_def is_ws_def Let_def bootState_def twoTabs_def initialState_def sampleResult_def

section \<open>Restoring state\<close>

lemma loadSessions_first_run: "loadSessions None savedActiveTab = Inr bootState"
  by (simp add: loadSessions_def bootState_def)

lemma loadSessions_empty_text: "loadSessions (Some (Unparsable [])) savedActiveTab = Inr bootState"
  by (simp add: loadSessions_def bootState_def nonempty_text_def)

lemma loadSessions_unparsable:
  "t \<noteq> [] \<Longrightarrow> loadSessions (Some (Unparsable t)) savedActiveTab = Inl SyntaxError"
  by (simp add: loadSessions_def nonempty_text_def JSON_parse_def)

lemma twoTabs_restored:
  "loadSessions (Some (Serialized [\<lparr>session_id = ''1'', name = ''Terminal 1'', history = []\<rparr>,
                                   \<lparr>session_id = ''2'', name = ''Terminal 2'', history = []\<rparr>]))
     (Some ''1'') = Inr twoTabs"
  by (simp add: loadSessions_def nonempty_text_def JSON_parse_def truthy_def twoTabs_def)

text \<open>
  C1. Unparsable text under the sessions key should lead to the bootstrap with the one
  default session. Here the stored text is the one character \<open>{\<close>: \<open>JSON.parse\<close> throws,
  nothing catches the \<open>SyntaxError\<close>, and the effect ends without a session or an active id.
\<close>

theorem loadSessions_malformed_throws:
  "loadSessions (Some (Unparsable ''{'')) savedActiveTab = Inl SyntaxError"
  by (simp add: loadSessions_def nonempty_text_def JSON_parse_def)

section \<open>The command history\<close>

text \<open>
  C7. In every state \<open>prev\<close> of the command history, pushing \<open>command\<close> puts it at the front
  followed by the other entries in their order, without any earlier occurrence of it; the
  result has no duplicates and at most 50 entries; a command that was already listed
  leaves the length as it was; a new one is placed before the old list, whose entry beyond
  the 50th place, the oldest, is dropped. The history is the 50 most recent distinct
  commands, most recent first.
\<close>

theorem newHistory_move_to_front:
  "newHistory command (commandHistoryAfter cmds)
     = command # take 49 (filter (\<lambda>cmd. cmd \<noteq> command) (commandHistoryAfter cmds))
   \<and> distinct (newHistory command (commandHistoryAfter cmds))
   \<and> length (newHistory command (commandHistoryAfter cmds)) \<le> 50
   \<and> (command \<in> set (commandHistoryAfter cmds) \<longrightarrow>
        length (newHistory command (commandHistoryAfter cmds)) = length (commandHistoryAfter cmds))
   \<and> (command \<notin> set (commandHistoryAfter cmds) \<longrightarrow>
        newHistory command (commandHistoryAfter cmds) = take 50 (command # commandHistoryAfter cmds))
   \<and> commandHistoryAfter cmds = take 50 (rev (remdups cmds))
   \<and> (distinct cmds \<longrightarrow> commandHistoryAfter cmds = take 50 (rev cmds))"
proof -
  let ?prev = "commandHistoryAfter cmds"
  have d: "distinct ?prev" by (rule commandHistoryAfter_distinct)
  have l: "length ?prev \<le> 50" by (rule commandHistoryAfter_length)
  have front: "newHistory command ?prev = command # take 49 (filter (\<lambda>cmd. cmd \<noteq> command) ?prev)"
    by (simp add: newHistory_def)
  have dist: "distinct (newHistory command ?prev)"
    unfolding newHistory_def using d by (intro distinct_take) simp
  have len: "length (newHistory command ?prev) \<le> 50"
    by (simp add: newHistory_def)
  have same: "length (newHistory command ?prev) = length ?prev" if "command \<in> set ?prev"
  proof -
    from d that have "Suc (length (filter (\<lambda>x. x \<noteq> command) ?prev)) = length ?prev"
      by (rule length_filter_neq_present)
    with l show ?thesis by (simp add: newHistory_def)
  qed
  have fresh: "newHistory command ?prev = take 50 (command # ?prev)" if "command \<notin> set ?prev"
    using that by (simp add: newHistory_def filter_neq_absent)
  have closed: "?prev = take 50 (rev (remdups cmds))" by (rule commandHistoryAfter_eq)
  have recent: "?prev = take 50 (rev cmds)" if "distinct cmds"
    using that by (simp add: commandHistoryAfter_eq distinct_remdups_id)
  from front dist len same fresh closed recent show ?thesis by blast
qed

theorem newHistory_move_to_front_witness:
  "''ls'' \<in> set (commandHistoryAfter [''ls'', ''pwd''])
   \<and> length (newHistory ''ls'' (commandHistoryAfter [''ls'', ''pwd''])) = 2
   \<and> ''cd'' \<notin> set (commandHistoryAfter [''ls'', ''pwd''])
   \<and> newHistory ''cd'' (commandHistoryAfter [''ls'', ''pwd'']) = [''cd'', ''pwd'', ''ls'']
   \<and> distinct [''ls'', ''pwd'']
   \<and> commandHistoryAfter [''ls'', ''pwd''] = [''pwd'', ''ls'']"
  using newHistory_move_to_front [of "''ls''" "[''ls'', ''pwd'']"]
        newHistory_move_to_front [of "''cd''" "[''ls'', ''pwd'']"]
  by (simp add: commandHistoryAfter_def newHistory_def)

section \<open>Submitting, settling and cancelling a command\<close>

text \<open>
  A request that is not aborted settles through the last two statements of
  \<open>executeCommand\<close>, which reset the ref.
\<close>

lemma settle_clears_token:
  assumes "trim command \<noteq> []" and "trim command \<noteq> ''clear''" and "activeSessionId s \<noteq> []"
  shows "abortControllerRef
     (executeCommand_resume (last (requests (executeCommand_start command s))) rp
        (executeCommand_start command s)) = None"
proof -
  let ?s1 = "executeCommand_start command s"
  let ?p = "last (requests ?s1)"
  have s1: "?s1 = s\<lparr>commandHistory := newHistory command (commandHistory s),
       historyIndex := - 1,
       sessions := appendEntries (activeSessionId s)
                     [\<lparr>entry_type = Command, content = ''$ '' @ command\<rparr>] (sessions s),
       currentCommand := [],
       isLoading := True,
       controllers := controllers s @ [False],
       abortControllerRef := Some (length (controllers s)),
       requests := requests s @
         [\<lparr>call_session = activeSessionId s, call_command = command,
           call_signal = length (controllers s)\<rparr>]\<rparr>"
    using assms by (rule executeCommand_start_run)
  have "\<not> (call_signal ?p < length (controllers ?s1) \<and> controllers ?s1 ! call_signal ?p)"
    by (simp add: s1)
  then show ?thesis by (simp add: executeCommand_resume_settled)
qed

text \<open>
  C2. The controller made at submission should be gone from the ref after success, after
  failure and after cancellation. Here \<open>ls\<close> is submitted on the first run and cancelled:
  \<open>cancelCommand\<close> aborts the controller without resetting the ref, the \<open>catch\<close> block
  returns on the \<open>AbortError\<close> before the statement that resets it, and with the busy
  flag down the ref still holds the aborted controller, whatever the service replied.
\<close>

theorem cancel_leaves_token:
  "isLoading
     (executeCommand_resume (last (requests (executeCommand_start ''ls'' bootState))) rp
        (cancelCommand (executeCommand_start ''ls'' bootState))) = False
   \<and> abortControllerRef
     (executeCommand_resume (last (requests (executeCommand_start ''ls'' bootState))) rp
        (cancelCommand (executeCommand_start ''ls'' bootState))) = Some 0"
  by (simp add: run_defs)



text \<open>
  A run with a click on the other tab between the submission and the cancel:
  \<open>cancelCommand\<close> appends to the session that is active when it runs, so the \<open>^C\<close> entry is
  in tab 2 and tab 1 keeps the command entry alone.
\<close>

lemma cancel_after_tab_switch:
  "map history (sessions
     (executeCommand_resume (last (requests (executeCommand_start ''ls'' twoTabs))) (Reply sampleResult)
        (cancelCommand (setActiveSessionId ''2'' (executeCommand_start ''ls'' twoTabs)))))
   = [[\<lparr>entry_type = Command, content = ''$ ls''\<rparr>], [\<lparr>entry_type = Error, content = ''^C''\<rparr>]]"
  by (simp add: run_defs)

text \<open>
  C4. A command is submitted while session \<open>A\<close> is active, and the active session becomes
  another one, \<open>B\<close>, before the service responds. When the request settles, the command
  entry and the entries of the outcome are in the history of \<open>A\<close>, the sessions with the
  id \<open>B\<close> are what they were before the submission, and \<open>B\<close> stays active.
\<close>

theorem result_routed_to_issuing_session:
  assumes "trim command \<noteq> []" and "trim command \<noteq> ''clear''" and "activeSessionId s \<noteq> []"
    and "B \<noteq> activeSessionId s"
  shows
    "sessions (executeCommand_resume (last (requests (executeCommand_start command s))) rp
                 (setActiveSessionId B (executeCommand_start command s)))
       = appendEntries (activeSessionId s)
           (\<lparr>entry_type = Command, content = ''$ '' @ command\<rparr> # outcomeEntries rp) (sessions s)
     \<and> filter (\<lambda>x. session_id x = B)
          (sessions (executeCommand_resume (last (requests (executeCommand_start command s))) rp
                       (setActiveSessionId B (executeCommand_start command s))))
         = filter (\<lambda>x. session_id x = B) (sessions s)
     \<and> activeSessionId (executeCommand_resume (last (requests (executeCommand_start command s))) rp
                           (setActiveSessionId B (executeCommand_start command s))) = B"
proof -
  let ?s1 = "executeCommand_start command s"
  let ?s2 = "setActiveSessionId B ?s1"
  let ?p = "last (requests ?s1)"
  note s1 = executeCommand_start_run [OF assms(1-3)]
  note p = issued_call [OF assms(1-3)]
  have live: "\<not> (call_signal ?p < length (controllers ?s2) \<and> controllers ?s2 ! call_signal ?p)"
    by (simp add: p) (simp add: s1 setActiveSessionId_def)
  note s3 = executeCommand_resume_settled [OF live, of rp]
  have p1: "call_session ?p = activeSessionId s"
    by (simp add: p)
  have s2: "sessions ?s2 = appendEntries (activeSessionId s)
              [\<lparr>entry_type = Command, content = ''$ '' @ command\<rparr>] (sessions s)"
    by (simp add: s1 setActiveSessionId_def)
  have "sessions (executeCommand_resume ?p rp ?s2)
       = appendEntries (call_session ?p) (outcomeEntries rp) (sessions ?s2)"
    by (subst s3) simp
  then have a: "sessions (executeCommand_resume ?p rp ?s2)
       = appendEntries (activeSessionId s)
           (\<lparr>entry_type = Command, content = ''$ '' @ command\<rparr> # outcomeEntries rp) (sessions s)"
    by (simp only: p1 s2 appendEntries_twice append_Cons append_Nil)
  have b: "filter (\<lambda>x. session_id x = B) (sessions (executeCommand_resume ?p rp ?s2))
         = filter (\<lambda>x. session_id x = B) (sessions s)"
    by (simp only: a) (rule appendEntries_other [OF assms(4)])
  have c: "activeSessionId (executeCommand_resume ?p rp ?s2) = B"
    by (subst s3) (simp add: setActiveSessionId_def)
  from a b c show ?thesis by blast
qed

theorem result_routed_to_issuing_session_witness:
  "trim ''ls'' \<noteq> [] \<and> trim ''ls'' \<noteq> ''clear'' \<and> activeSessionId twoTabs \<noteq> []
   \<and> ''2'' \<noteq> activeSessionId twoTabs
   \<and> map history (sessions
        (executeCommand_resume (last (requests (executeCommand_start ''ls'' twoTabs)))
           (Reply sampleResult)
           (setActiveSessionId ''2'' (executeCommand_start ''ls'' twoTabs))))
      = [[\<lparr>entry_type = Command, content = ''$ ls''\<rparr>, \<lparr>entry_type = Output, content = ''a.txt''\<rparr>], []]"
  using result_routed_to_issuing_session [of "''ls''" twoTabs "''2''" "Reply sampleResult"]
  by (simp add: run_defs appendEntries_def)

text \<open>
  The run that C5 does not survive: \<open>true\<close> is submitted on the first run and the
  service replies with an empty stdout and an empty stderr. The request has settled and
  the busy flag is down, and the command entry is followed by no entry at all.
\<close>

theorem silent_success_counterexample:
  "map history (sessions
     (executeCommand_resume (last (requests (executeCommand_start ''true'' bootState)))
        (Reply \<lparr>error = None, stdout = Some [], stderr = Some [], exitCode = Some 0\<rparr>)
        (executeCommand_start ''true'' bootState)))
     = [[\<lparr>entry_type = Command, content = ''$ true''\<rparr>]]
   \<and> isLoading
     (executeCommand_resume (last (requests (executeCommand_start ''true'' bootState)))
        (Reply \<lparr>error = None, stdout = Some [], stderr = Some [], exitCode = Some 0\<rparr>)
        (executeCommand_start ''true'' bootState)) = False"
  by (simp add: run_defs)

text \<open>
  C5, amended. A command whose trimmed text is neither empty nor \<open>clear\<close> is submitted
  while a session is active. Exactly one command entry, \<open>$\<close> and a space before the text,
  is appended to that session at once. When the request settles, the entries of its one
  outcome follow the command entry: the one error entry with the \<open>error\<close> field of the body
  when that is not empty; otherwise an output entry for a non-empty stdout and then an
  error entry for a non-empty stderr, none when both are empty; for a reply that is not
  ok, or a rejection, the one error entry with the failure description. When the command
  is cancelled right after the submission, the one \<open>^C\<close> entry follows the command entry
  and the settling request adds nothing.
\<close>

theorem command_entry_then_outcome:
  assumes "trim command \<noteq> []" and "trim command \<noteq> ''clear''" and "activeSessionId s \<noteq> []"
  shows
    "sessions (executeCommand_start command s)
       = appendEntries (activeSessionId s)
           [\<lparr>entry_type = Command, content = ''$ '' @ command\<rparr>] (sessions s)
     \<and> (error r = Some e \<and> e \<noteq> [] \<longrightarrow>
          sessions (executeCommand_resume (last (requests (executeCommand_start command s)))
                      (Reply r) (executeCommand_start command s))
            = appendEntries (activeSessionId s)
                [\<lparr>entry_type = Command, content = ''$ '' @ command\<rparr>,
                 \<lparr>entry_type = Error, content = e\<rparr>] (sessions s))
     \<and> (error r \<in> {None, Some []} \<longrightarrow>
          sessions (executeCommand_resume (last (requests (executeCommand_start command s)))
                      (Reply r) (executeCommand_start command s))
            = appendEntries (activeSessionId s)
                (\<lparr>entry_type = Command, content = ''$ '' @ command\<rparr> #
                 (case stdout r of None \<Rightarrow> []
                  | Some out \<Rightarrow>
                      if out = [] then [] else [\<lparr>entry_type = Output, content = out\<rparr>]) @
                 (case stderr r of None \<Rightarrow> []
                  | Some err \<Rightarrow>
                      if err = [] then [] else [\<lparr>entry_type = Error, content = err\<rparr>]))
                (sessions s))
     \<and> sessions (executeCommand_resume (last (requests (executeCommand_start command s)))
                   (Status code text) (executeCommand_start command s))
         = appendEntries (activeSessionId s)
             [\<lparr>entry_type = Command, content = ''$ '' @ command\<rparr>,
              \<lparr>entry_type = Error,
               content = ''Failed to execute command: HTTP '' @ string_of_nat code @ '': '' @ text\<rparr>]
             (sessions s)
     \<and> sessions (executeCommand_resume (last (requests (executeCommand_start command s)))
                   (Rejected message) (executeCommand_start command s))
         = appendEntries (activeSessionId s)
             [\<lparr>entry_type = Command, content = ''$ '' @ command\<rparr>,
              \<lparr>entry_type = Error, content = ''Failed to execute command: '' @ message\<rparr>]
             (sessions s)
     \<and> sessions (executeCommand_resume (last (requests (executeCommand_start command s))) rp
                   (cancelCommand (executeCommand_start command s)))
         = appendEntries (activeSessionId s)
             [\<lparr>entry_type = Command, content = ''$ '' @ command\<rparr>,
              \<lparr>entry_type = Error, content = ''^C''\<rparr>] (sessions s)"
proof -
  let ?s1 = "executeCommand_start command s"
  let ?p = "last (requests ?s1)"
  let ?cmd = "\<lparr>entry_type = Command, content = ''$ '' @ command\<rparr>"
  note s1 = executeCommand_start_run [OF assms]
  note p = issued_call [OF assms]
  have p1: "call_session ?p = activeSessionId s" by (simp add: p)
  have p2: "call_signal ?p = length (controllers s)" by (simp add: p)
  have a: "sessions ?s1 = appendEntries (activeSessionId s) [?cmd] (sessions s)"
    by (simp add: s1)
  have live: "\<not> (call_signal ?p < length (controllers ?s1) \<and> controllers ?s1 ! call_signal ?p)"
    by (simp only: p2) (simp add: s1)
  have "sessions (executeCommand_resume ?p x ?s1)
          = appendEntries (call_session ?p) (outcomeEntries x) (sessions ?s1)" for x
    by (subst executeCommand_resume_settled [OF live]) simp
  then have b: "sessions (executeCommand_resume ?p x ?s1)
          = appendEntries (activeSessionId s) (?cmd # outcomeEntries x) (sessions s)" for x
    by (simp only: p1 a appendEntries_twice append_Cons append_Nil)
  have b1: "sessions (executeCommand_resume ?p (Reply r) ?s1)
          = appendEntries (activeSessionId s) [?cmd, \<lparr>entry_type = Error, content = e\<rparr>] (sessions s)"
    if h: "error r = Some e \<and> e \<noteq> []"
  proof -
    from h have "outcomeEntries (Reply r) = [\<lparr>entry_type = Error, content = e\<rparr>]"
      by (simp add: outcomeEntries_error)
    then show ?thesis by (simp only: b)
  qed
  have b2: "sessions (executeCommand_resume ?p (Reply r) ?s1)
          = appendEntries (activeSessionId s)
              (?cmd #
               (case stdout r of None \<Rightarrow> []
                | Some out \<Rightarrow> if out = [] then [] else [\<lparr>entry_type = Output, content = out\<rparr>]) @
               (case stderr r of None \<Rightarrow> []
                | Some err \<Rightarrow> if err = [] then [] else [\<lparr>entry_type = Error, content = err\<rparr>]))
              (sessions s)"
    if h: "error r \<in> {None, Some []}"
    by (simp only: b outcomeEntries_streams [OF h])
  have b3: "sessions (executeCommand_resume ?p (Status code text) ?s1)
         = appendEntries (activeSessionId s)
             [?cmd, \<lparr>entry_type = Error,
               content = ''Failed to execute command: HTTP '' @ string_of_nat code @ '': '' @ text\<rparr>]
             (sessions s)"
    by (simp only: b outcomeEntries_status)
  have b4: "sessions (executeCommand_resume ?p (Rejected message) ?s1)
         = appendEntries (activeSessionId s)
             [?cmd, \<lparr>entry_type = Error, content = ''Failed to execute command: '' @ message\<rparr>]
             (sessions s)"
    by (simp only: b outcomeEntries_rejected)
  have ref: "abortControllerRef ?s1 = Some (length (controllers s))"
    by (simp add: s1)
  note s2 = cancelCommand_eq [OF ref]
  have act: "activeSessionId ?s1 = activeSessionId s" by (simp add: s1)
  have c0: "sessions (cancelCommand ?s1)
          = appendEntries (activeSessionId s) [?cmd, \<lparr>entry_type = Error, content = ''^C''\<rparr>] (sessions s)"
    by (subst s2) (simp add: act a appendEntries_twice)
  have "call_signal ?p < length (controllers (cancelCommand ?s1))"
    by (subst s2) (simp add: p2 s1)
  moreover have "controllers (cancelCommand ?s1) ! call_signal ?p"
    by (subst s2) (simp add: p2 s1)
  ultimately have "executeCommand_resume ?p rp (cancelCommand ?s1) = cancelCommand ?s1"
    by (rule executeCommand_resume_aborted)
  with c0 have c: "sessions (executeCommand_resume ?p rp (cancelCommand ?s1))
          = appendEntries (activeSessionId s) [?cmd, \<lparr>entry_type = Error, content = ''^C''\<rparr>] (sessions s)"
    by simp
  from a b1 b2 b3 b4 c show ?thesis by blast
qed

theorem command_entry_then_outcome_witness:
  "trim ''ls'' \<noteq> [] \<and> trim ''ls'' \<noteq> ''clear'' \<and> activeSessionId bootState \<noteq> []
   \<and> map history (sessions (executeCommand_start ''ls'' bootState))
      = [[\<lparr>entry_type = Command, content = ''$ ls''\<rparr>]]
   \<and> error \<lparr>error = Some [], stdout = Some ''a.txt'', stderr = Some ''warn'', exitCode = Some 0\<rparr>
        \<in> {None, Some []}
   \<and> map history (sessions
        (executeCommand_resume (last (requests (executeCommand_start ''ls'' bootState)))
           (Reply \<lparr>error = Some [], stdout = Some ''a.txt'', stderr = Some ''warn'', exitCode = Some 0\<rparr>)
           (executeCommand_start ''ls'' bootState)))
      = [[\<lparr>entry_type = Command, content = ''$ ls''\<rparr>, \<lparr>entry_type = Output, content = ''a.txt''\<rparr>,
          \<lparr>entry_type = Error, content = ''warn''\<rparr>]]
   \<and> error \<lparr>error = Some ''no such file'', stdout = None, stderr = None, exitCode = Some 1\<rparr>
        = Some ''no such file''
   \<and> ''no such file'' \<noteq> []
   \<and> map history (sessions
        (executeCommand_resume (last (requests (executeCommand_start ''ls'' bootState)))
           (Reply \<lparr>error = Some ''no such file'', stdout = None, stderr = None, exitCode = Some 1\<rparr>)
           (executeCommand_start ''ls'' bootState)))
      = [[\<lparr>entry_type = Command, content = ''$ ls''\<rparr>,
          \<lparr>entry_type = Error, content = ''no such file''\<rparr>]]
   \<and> map history (sessions
        (executeCommand_resume (last (requests (executeCommand_start ''ls'' bootState)))
           (Status 500 ''Internal Server Error'') (executeCommand_start ''ls'' bootState)))
      = [[\<lparr>entry_type = Command, content = ''$ ls''\<rparr>,
          \<lparr>entry_type = Error,
           content = ''Failed to execute command: HTTP 500: Internal Server Error''\<rparr>]]"
  using command_entry_then_outcome
          [of "''ls''" bootState
              "\<lparr>error = Some [], stdout = Some ''a.txt'', stderr = Some ''warn'', exitCode = Some 0\<rparr>"
              "[]" 500 "''Internal Server Error''" "[]" "Rejected []"]
        command_entry_then_outcome
          [of "''ls''" bootState
              "\<lparr>error = Some ''no such file'', stdout = None, stderr = None, exitCode = Some 1\<rparr>"
              "''no such file''" 500 "''Internal Server Error''" "[]" "Rejected []"]
  by (simp add: run_defs appendEntries_def string_of_nat.simps digit_char_def)

text \<open>
  C6. With a session active, submitting a text whose trimmed form is \<open>clear\<close> leaves
  every session with the active id with an empty history, so no command entry is
  appended; the sessions with another id are unchanged; no request is sent, and the
  command history, the busy flag and the ref stay as they were.
\<close>

theorem clear_is_local:
  assumes "trim text = ''clear''" and "activeSessionId s \<noteq> []"
  shows
    "sessions (executeCommand_start text s)
       = map (\<lambda>x. if session_id x = activeSessionId s then x\<lparr>history := []\<rparr> else x) (sessions s)
     \<and> filter (\<lambda>x. session_id x \<noteq> activeSessionId s) (sessions (executeCommand_start text s))
       = filter (\<lambda>x. session_id x \<noteq> activeSessionId s) (sessions s)
     \<and> history ` {x \<in> set (sessions (executeCommand_start text s)). session_id x = activeSessionId s}
         \<subseteq> {[]}
     \<and> requests (executeCommand_start text s) = requests s
     \<and> commandHistory (executeCommand_start text s) = commandHistory s
     \<and> isLoading (executeCommand_start text s) = isLoading s
     \<and> abortControllerRef (executeCommand_start text s) = abortControllerRef s"
proof -
  from assms have eq: "executeCommand_start text s = (clearTerminal s)\<lparr>currentCommand := []\<rparr>"
    by (simp add: executeCommand_start_def)
  have a: "sessions (executeCommand_start text s)
       = map (\<lambda>x. if session_id x = activeSessionId s then x\<lparr>history := []\<rparr> else x) (sessions s)"
    by (simp add: eq clearTerminal_def)
  have b: "filter (\<lambda>x. session_id x \<noteq> activeSessionId s)
             (map (\<lambda>x. if session_id x = activeSessionId s then x\<lparr>history := []\<rparr> else x) ss)
       = filter (\<lambda>x. session_id x \<noteq> activeSessionId s) ss" for ss
    by (induction ss) simp_all
  have c: "history ` {x \<in> set (map (\<lambda>x. if session_id x = activeSessionId s then x\<lparr>history := []\<rparr> else x) ss).
                      session_id x = activeSessionId s} \<subseteq> {[]}" for ss
    by (induction ss) auto
  show ?thesis
    by (simp only: a b c) (simp add: eq clearTerminal_def)
qed

theorem clear_is_local_witness:
  "trim '' clear '' = ''clear'' \<and> activeSessionId twoTabs \<noteq> []
   \<and> map history (sessions (executeCommand_start '' clear ''
        (executeCommand_resume (last (requests (executeCommand_start ''ls'' twoTabs)))
           (Reply sampleResult) (executeCommand_start ''ls'' twoTabs)))) = [[], []]
   \<and> requests (executeCommand_start '' clear '' twoTabs) = []"
  using clear_is_local [of "'' clear ''" twoTabs]
        clear_is_local [of "'' clear ''" "executeCommand_resume (last (requests (executeCommand_start ''ls'' twoTabs)))
           (Reply sampleResult) (executeCommand_start ''ls'' twoTabs)"]
  by (simp add: run_defs)

text \<open>
  C10. When the body of a 2xx reply has a non-empty \<open>error\<close> field and the request was not
  aborted, the outcome is the single error entry with that text, appended to the session
  of the call; \<open>stdout\<close> and \<open>stderr\<close> of the same body are not looked at.
\<close>

theorem error_field_takes_precedence:
  assumes "error r = Some e" and "e \<noteq> []"
    and "\<not> (call_signal p < length (controllers s) \<and> controllers s ! call_signal p)"
  shows
    "outcomeEntries (Reply r) = [\<lparr>entry_type = Error, content = e\<rparr>]
     \<and> sessions (executeCommand_resume p (Reply r) s)
       = appendEntries (call_session p) [\<lparr>entry_type = Error, content = e\<rparr>] (sessions s)"
proof -
  from assms(1,2) have a: "outcomeEntries (Reply r) = [\<lparr>entry_type = Error, content = e\<rparr>]"
    by (simp add: outcomeEntries_def resultEntries_def truthy_def)
  have "sessions (executeCommand_resume p (Reply r) s)
       = appendEntries (call_session p) (outcomeEntries (Reply r)) (sessions s)"
    by (subst executeCommand_resume_settled [OF assms(3)]) simp
  with a show ?thesis by simp
qed

theorem error_field_takes_precedence_witness:
  "error \<lparr>error = Some ''boom'', stdout = Some ''out'', stderr = Some ''err'', exitCode = Some 1\<rparr>
     = Some ''boom''
   \<and> ''boom'' \<noteq> []
   \<and> \<not> (call_signal (last (requests (executeCommand_start ''ls'' bootState)))
             < length (controllers (executeCommand_start ''ls'' bootState))
           \<and> controllers (executeCommand_start ''ls'' bootState)
               ! call_signal (last (requests (executeCommand_start ''ls'' bootState))))
   \<and> map history (sessions
        (executeCommand_resume (last (requests (executeCommand_start ''ls'' bootState)))
           (Reply \<lparr>error = Some ''boom'', stdout = Some ''out'', stderr = Some ''err'', exitCode = Some 1\<rparr>)
           (executeCommand_start ''ls'' bootState)))
      = [[\<lparr>entry_type = Command, content = ''$ ls''\<rparr>, \<lparr>entry_type = Error, content = ''boom''\<rparr>]]"
  using error_field_takes_precedence
    [of "\<lparr>error = Some ''boom'', stdout = Some ''out'', stderr = Some ''err'', exitCode = Some 1\<rparr>"
        "''boom''" "last (requests (executeCommand_start ''ls'' bootState))"
        "executeCommand_start ''ls'' bootState"]
  by (simp add: run_defs appendEntries_def)

section \<open>Closing and opening tabs\<close>




text \<open>
  The run that C9 does not survive: two tabs opened on the same reading of the clock get
  the same id.
\<close>

theorem createNewTab_same_reading_counterexample:
  "\<not> distinct (map session_id
        (sessions (createNewTab 1700000000000 (createNewTab 1700000000000 bootState))))"
  by (simp add: createNewTab_def Let_def bootState_def initialState_def)

text \<open>
  C9, amended. A new tab is appended at the end with the decimal text of the clock reading
  as its id, the name \<open>Terminal\<close> + space + (count + 1) and an empty history, and it becomes
  active. Unique ids stay unique when that text is not yet an id of the collection; this
  is so, and remains so for later readings, when every id of the collection is the decimal
  text of an earlier reading.
\<close>

theorem createNewTab_appends:
  "sessions (createNewTab now s)
     = sessions s @ [\<lparr>session_id = string_of_nat now,
                      name = ''Terminal '' @ string_of_nat (length (sessions s) + 1),
                      history = []\<rparr>]
   \<and> activeSessionId (createNewTab now s) = string_of_nat now
   \<and> (distinct (map session_id (sessions s))
        \<and> string_of_nat now \<notin> set (map session_id (sessions s)) \<longrightarrow>
        distinct (map session_id (sessions (createNewTab now s))))
   \<and> ((\<forall>x \<in> set (sessions s). \<exists>t<now. session_id x = string_of_nat t) \<longrightarrow>
        string_of_nat now \<notin> set (map session_id (sessions s))
        \<and> (\<forall>x \<in> set (sessions (createNewTab now s)). \<exists>t<Suc now. session_id x = string_of_nat t))"
proof -
  have a: "sessions (createNewTab now s)
     = sessions s @ [\<lparr>session_id = string_of_nat now,
                      name = ''Terminal '' @ string_of_nat (length (sessions s) + 1),
                      history = []\<rparr>]"
    by (simp add: createNewTab_def Let_def)
  have b: "activeSessionId (createNewTab now s) = string_of_nat now"
    by (simp add: createNewTab_def Let_def)
  have c: "distinct (map session_id (sessions (createNewTab now s)))"
    if "distinct (map session_id (sessions s))"
      and "string_of_nat now \<notin> set (map session_id (sessions s))"
    using that by (simp add: a)
  have d: "string_of_nat now \<notin> set (map session_id (sessions s))
        \<and> (\<forall>x \<in> set (sessions (createNewTab now s)). \<exists>t<Suc now. session_id x = string_of_nat t)"
    if earlier: "\<forall>x \<in> set (sessions s). \<exists>t<now. session_id x = string_of_nat t"
  proof
    show "string_of_nat now \<notin> set (map session_id (sessions s))"
    proof
      assume "string_of_nat now \<in> set (map session_id (sessions s))"
      then obtain x where "x \<in> set (sessions s)" and "session_id x = string_of_nat now" by auto
      with earlier obtain t where "t < now" and "string_of_nat now = string_of_nat t" by force
      then show False using string_of_nat_inj by blast
    qed
    show "\<forall>x \<in> set (sessions (createNewTab now s)). \<exists>t<Suc now. session_id x = string_of_nat t"
    proof
      fix x assume "x \<in> set (sessions (createNewTab now s))"
      then consider "x \<in> set (sessions s)" | "session_id x = string_of_nat now"
        by (auto simp: a)
      then show "\<exists>t<Suc now. session_id x = string_of_nat t"
      proof cases
        case 1
        with earlier obtain t where "t < now" and "session_id x = string_of_nat t" by blast
        then show ?thesis using less_Suc_eq by blast
      next
        case 2
        then show ?thesis by blast
      qed
    qed
  qed
  from a b c d show ?thesis by blast
qed

theorem createNewTab_appends_witness:
  "distinct (map session_id (sessions bootState))
   \<and> ''1700000000000'' \<notin> set (map session_id (sessions bootState))
   \<and> (\<exists>t<1700000000000. ''1'' = string_of_nat t)
   \<and> map session_id (sessions (createNewTab 1700000000000 bootState)) = [''1'', ''1700000000000'']
   \<and> map name (sessions (createNewTab 1700000000000 bootState)) = [''Terminal 1'', ''Terminal 2'']
   \<and> map history (sessions (createNewTab 1700000000000 bootState)) = [[], []]
   \<and> activeSessionId (createNewTab 1700000000000 bootState) = ''1700000000000''
   \<and> distinct (map session_id (sessions (createNewTab 1700000000000 bootState)))"
proof -
  have one: "string_of_nat 1 = ''1''"
    by (simp add: string_of_nat.simps digit_char_def)
  have two: "string_of_nat (Suc (Suc 0)) = ''2''"
    by (simp add: string_of_nat.simps digit_char_def)
  have now: "string_of_nat 1700000000000 = ''1700000000000''"
    by (simp add: string_of_nat.simps digit_char_def)
  have early: "\<exists>t<1700000000000. ''1'' = string_of_nat t"
    using one by (intro exI [of _ 1]) simp
  then have hyp: "\<forall>x \<in> set (sessions bootState). \<exists>t<1700000000000. session_id x = string_of_nat t"
    by (simp add: bootState_def initialState_def)
  from createNewTab_appends [of 1700000000000 bootState] hyp early show ?thesis
    by (simp add: bootState_def initialState_def now two)
qed

end
